theory Spec2Isabelle
  imports Complex_Main "HOL-Library.Multiset"
begin

section \<open>The Wellness Insight Engine of \<^verbatim>\<open>analyser.js\<close>\<close>

text \<open>
  A shallow embedding of class \<^verbatim>\<open>WellnessAnalyzer\<close>: the three metric calculators,
  the recommendation generator, the report assembler and the two exporters.

  JavaScript numbers are modelled as exact real numbers together with the three
  non-finite values a division can produce (\<open>NaN\<close>, \<open>Infinity\<close>, \<open>-Infinity\<close>);
  the rounding error of IEEE doubles is not modelled. \<^verbatim>\<open>Math.round\<close> rounds to the
  nearest integer, a tie going up. Reading a property gives \<open>Undefined\<close> when the object
  has no such property, \<open>Null\<close> when it holds \<^verbatim>\<open>null\<close>, and \<open>Has v\<close> otherwise.
\<close>

subsection \<open>JavaScript values\<close>

datatype jsnum = NaN | PosInf | NegInf | Num real

datatype 'a slot = Undefined | Null | Has 'a

datatype error = TypeError | ExportIOFailure

text \<open>The quotient \<^verbatim>\<open>a / b\<close> of two finite numbers.\<close>

definition js_div :: "real \<Rightarrow> real \<Rightarrow> jsnum" where
  "js_div a b =
     (if b \<noteq> 0 then Num (a / b)
      else if a = 0 then NaN
      else if 0 < a then PosInf else NegInf)"

definition Math_round :: "real \<Rightarrow> real" where
  "Math_round v = of_int \<lfloor>v + 1 / 2\<rfloor>"

text \<open>\<^verbatim>\<open>Math.round(v * k) / k\<close> for a positive constant \<open>k\<close>.\<close>

definition round_scaled :: "real \<Rightarrow> real \<Rightarrow> real" where
  "round_scaled k v = Math_round (v * k) / k"

fun round_scaled_num :: "real \<Rightarrow> jsnum \<Rightarrow> jsnum" where
  "round_scaled_num k (Num v) = Num (round_scaled k v)"
| "round_scaled_num k NaN = NaN"
| "round_scaled_num k PosInf = PosInf"
| "round_scaled_num k NegInf = NegInf"

text \<open>
  The comparison \<^verbatim>\<open>a < b\<close> of two numbers (\<^verbatim>\<open>a > b\<close> is \<open>js_less b a\<close>): false
  as soon as one of them is \<open>NaN\<close>.
\<close>

fun js_less :: "jsnum \<Rightarrow> jsnum \<Rightarrow> bool" where
  "js_less (Num a) (Num b) = (a < b)"
| "js_less NegInf (Num b) = True"
| "js_less NegInf PosInf = True"
| "js_less (Num a) PosInf = True"
| "js_less a b = False"

text \<open>
  The number a property converts to in such a comparison: \<^verbatim>\<open>undefined\<close> gives
  \<open>NaN\<close> and \<^verbatim>\<open>null\<close> gives \<open>0\<close>.
\<close>

fun slot_num :: "jsnum slot \<Rightarrow> jsnum" where
  "slot_num (Has v) = v"
| "slot_num Undefined = NaN"
| "slot_num Null = Num 0"

text \<open>\<^verbatim>\<open>arr.reduce((sum, e) => sum + f(e), 0)\<close>\<close>

definition reduce_sum :: "('a \<Rightarrow> 'b::comm_monoid_add) \<Rightarrow> 'a list \<Rightarrow> 'b" where
  "reduce_sum f arr = foldl (\<lambda>sum e. sum + f e) 0 arr"

text \<open>
  \<^verbatim>\<open>arr.reduce(f)\<close> with no initial value: a \<^verbatim>\<open>TypeError\<close> on the empty array.
\<close>

fun reduce1 :: "('a \<Rightarrow> 'a \<Rightarrow> 'a) \<Rightarrow> 'a list \<Rightarrow> error + 'a" where
  "reduce1 f [] = Inl TypeError"
| "reduce1 f (a # arr) = Inr (foldl f a arr)"

subsection \<open>Objects used as dictionaries\<close>

text \<open>
  An object literal \<^verbatim>\<open>{}\<close> filled by assignment is a list of its own properties in
  insertion order, no key twice. \<^verbatim>\<open>Object.keys\<close> lists the keys that are array indices
  first, in ascending numeric order, then the others in insertion order. A lookup
  \<^verbatim>\<open>obj[k]\<close> of a key that is no own property goes to \<^verbatim>\<open>Object.prototype\<close>, whose
  properties are all truthy.
\<close>

type_synonym 'v obj = "(string \<times> 'v) list"

definition proto_keys :: "string list" where
  "proto_keys =
     [''constructor'', ''__defineGetter__'', ''__defineSetter__'', ''hasOwnProperty'',
      ''__lookupGetter__'', ''__lookupSetter__'', ''isPrototypeOf'',
      ''propertyIsEnumerable'', ''toString'', ''valueOf'', ''__proto__'',
      ''toLocaleString'']"

definition obj_set :: "'v obj \<Rightarrow> string \<Rightarrow> 'v \<Rightarrow> 'v obj" where
  "obj_set ob k v =
     (if k \<in> fst ` set ob then map (\<lambda>(k', v'). (k', if k' = k then v else v')) ob
      else ob @ [(k, v)])"

definition digit_chars :: string where
  "digit_chars = ''0123456789''"

definition digit_val :: "char \<Rightarrow> nat" where
  "digit_val c = length (takeWhile (\<lambda>d. d \<noteq> c) digit_chars)"

definition dec_val :: "string \<Rightarrow> nat" where
  "dec_val s = foldl (\<lambda>acc c. 10 * acc + digit_val c) 0 s"

definition is_array_index :: "string \<Rightarrow> bool" where
  "is_array_index s =
     (s \<noteq> [] \<and> list_all (\<lambda>c. c \<in> set digit_chars) s
      \<and> (if hd s = CHR ''0'' then s = ''0'' else True)
      \<and> dec_val s < 2 ^ 32 - 1)"

definition Object_keys :: "'v obj \<Rightarrow> string list" where
  "Object_keys ob =
     sort_key dec_val (filter is_array_index (map fst ob))
     @ filter (\<lambda>k. \<not> is_array_index k) (map fst ob)"

text \<open>
  The grouping idiom
  \<^verbatim>\<open>if (!groups[k]) groups[k] = []; groups[k].push(e)\<close>:
  a key inherited from \<^verbatim>\<open>Object.prototype\<close> is truthy and has no \<^verbatim>\<open>push\<close>.
\<close>

definition group_push :: "'v list obj \<Rightarrow> string \<Rightarrow> 'v \<Rightarrow> error + 'v list obj" where
  "group_push groups k e =
     (case map_of groups k of
        Some arr \<Rightarrow> Inr (obj_set groups k (arr @ [e]))
      | None \<Rightarrow> if k \<in> set proto_keys then Inl TypeError else Inr (obj_set groups k [e]))"

fun group_by :: "'v list obj \<Rightarrow> (string \<times> 'v) list \<Rightarrow> error + 'v list obj" where
  "group_by groups [] = Inr groups"
| "group_by groups ((k, e) # es) =
     (case group_push groups k e of
        Inl err \<Rightarrow> Inl err
      | Inr groups' \<Rightarrow> group_by groups' es)"

text \<open>The own properties in the order of \<^verbatim>\<open>Object.keys\<close>.\<close>

definition Object_entries :: "'v obj \<Rightarrow> (string \<times> 'v) list" where
  "Object_entries ob = List.map_filter (\<lambda>k. map_option (Pair k) (map_of ob k)) (Object_keys ob)"

subsection \<open>Input records\<close>

datatype weekday_long = Sunday | Monday | Tuesday | Wednesday | Thursday | Friday | Saturday

fun weekday_name :: "weekday_long \<Rightarrow> string" where
  "weekday_name Sunday = ''Sunday''"
| "weekday_name Monday = ''Monday''"
| "weekday_name Tuesday = ''Tuesday''"
| "weekday_name Wednesday = ''Wednesday''"
| "weekday_name Thursday = ''Thursday''"
| "weekday_name Friday = ''Friday''"
| "weekday_name Saturday = ''Saturday''"

text \<open>
  A \<^verbatim>\<open>Date\<close> as the code observes it: its time value in milliseconds (what
  \<^verbatim>\<open>a.date - b.date\<close> subtracts), its weekday in local time (what
  \<^verbatim>\<open>toLocaleDateString('en', { weekday: 'long' })\<close> names) and its hour of the day in
  local time (\<^verbatim>\<open>getHours()\<close>, from 0 to 23).
\<close>

record Date =
  getTime :: int
  weekday :: weekday_long
  getHours :: nat

record MoodEntry =
  date :: Date
  mood_level :: int
  energy_level :: int
  entry_notes :: string

record point =
  px :: real
  py :: real

subsection \<open>Mood metric calculator\<close>

record MoodInsights =
  average :: "jsnum slot"
  trend :: "string slot"
  trend_slope :: "jsnum slot"
  volatility :: "jsnum slot"
  best_weekday :: "string slot"
  worst_weekday :: "string slot"
  weekday_patterns :: "real obj slot"

definition calculateTrend :: "point list \<Rightarrow> jsnum" where
  "calculateTrend data =
     (let n = real (length data);
          sumX = reduce_sum px data;
          sumY = reduce_sum py data;
          sumXY = reduce_sum (\<lambda>p. px p * py p) data;
          sumXX = reduce_sum (\<lambda>p. px p * px p) data
      in js_div (n * sumXY - sumX * sumY) (n * sumXX - sumX * sumX))"

text \<open>\<^verbatim>\<open>moodData.map((entry, index) => ({ x: index, y: entry.mood_level }))\<close>\<close>

definition trend_points :: "MoodEntry list \<Rightarrow> point list" where
  "trend_points moodData =
     map (\<lambda>(index, entry). \<lparr>px = real index, py = real_of_int (mood_level entry)\<rparr>)
       (enumerate 0 moodData)"

definition trend_label :: "jsnum \<Rightarrow> string" where
  "trend_label t =
     (if js_less (Num 0.05) t then ''improving''
      else if js_less t (Num (- 0.05)) then ''declining'' else ''stable'')"

text \<open>
  \<^verbatim>\<open>Object.keys(avgs).reduce((a, b) => avgs[a] > avgs[b] ? a : b)\<close> and its mirror
  image with \<^verbatim>\<open><\<close>; a key that is missing reads as \<^verbatim>\<open>undefined\<close>, which compares
  false.
\<close>

definition obj_gt :: "real obj \<Rightarrow> string \<Rightarrow> string \<Rightarrow> bool" where
  "obj_gt ob a b =
     (case (map_of ob a, map_of ob b) of (Some va, Some vb) \<Rightarrow> vb < va | _ \<Rightarrow> False)"

definition obj_lt :: "real obj \<Rightarrow> string \<Rightarrow> string \<Rightarrow> bool" where
  "obj_lt ob a b =
     (case (map_of ob a, map_of ob b) of (Some va, Some vb) \<Rightarrow> va < vb | _ \<Rightarrow> False)"

definition key_of_max :: "real obj \<Rightarrow> error + string" where
  "key_of_max ob = reduce1 (\<lambda>a b. if obj_gt ob a b then a else b) (Object_keys ob)"

definition key_of_min :: "real obj \<Rightarrow> error + string" where
  "key_of_min ob = reduce1 (\<lambda>a b. if obj_lt ob a b then a else b) (Object_keys ob)"

definition mean_levels :: "int list \<Rightarrow> real" where
  "mean_levels moods = reduce_sum real_of_int moods / real (length moods)"

definition weekday_averages :: "int list obj \<Rightarrow> real obj" where
  "weekday_averages weekdayMoods =
     map (\<lambda>(day, moods). (day, mean_levels moods)) (Object_entries weekdayMoods)"

definition calculateMoodInsights :: "MoodEntry list \<Rightarrow> error + MoodInsights" where
  "calculateMoodInsights moodData =
     (if length moodData = 0 then
        Inr \<lparr>average = Has (Num 0), trend = Has ''no_data'', trend_slope = Undefined,
             volatility = Has (Num 0), best_weekday = Undefined, worst_weekday = Undefined,
             weekday_patterns = Undefined\<rparr>
      else
        (let avgMood = reduce_sum (\<lambda>entry. real_of_int (mood_level entry)) moodData
                         / real (length moodData);
             trend_val = calculateTrend (trend_points moodData);
             variance = reduce_sum (\<lambda>entry. (real_of_int (mood_level entry) - avgMood) ^ 2)
                          moodData / real (length moodData);
             volatility_val = sqrt variance
         in (case group_by []
                    (map (\<lambda>entry. (weekday_name (weekday (date entry)), mood_level entry))
                       moodData) of
               Inl err \<Rightarrow> Inl err
             | Inr weekdayMoods \<Rightarrow>
                 (let weekdayAverages = weekday_averages weekdayMoods
                  in (case key_of_max weekdayAverages of
                        Inl err \<Rightarrow> Inl err
                      | Inr bestDay \<Rightarrow>
                          (case key_of_min weekdayAverages of
                             Inl err \<Rightarrow> Inl err
                           | Inr worstDay \<Rightarrow>
                               Inr \<lparr>average = Has (Num (round_scaled 100 avgMood)),
                                    trend = Has (trend_label trend_val),
                                    trend_slope = Has (round_scaled_num 10000 trend_val),
                                    volatility = Has (Num (round_scaled 100 volatility_val)),
                                    best_weekday = Has bestDay,
                                    worst_weekday = Has worstDay,
                                    weekday_patterns = Has weekdayAverages\<rparr>))))))"

subsection \<open>Habit pattern analyzer\<close>

record HabitEntry =
  name :: string
  date :: Date
  completed :: nat
  target :: nat

record HabitInsights =
  completion_rate :: "jsnum slot"
  streaks :: "nat obj slot"
  patterns :: "nat obj slot"
  overall_completion_rate :: "jsnum slot"
  individual_completion_rates :: "real obj slot"
  current_streaks :: "nat obj slot"
  most_consistent_habit :: "string slot"
  needs_attention :: "string slot"

text \<open>\<^verbatim>\<open>h.completed >= h.target\<close>\<close>

definition meets_target :: "HabitEntry \<Rightarrow> bool" where
  "meets_target h = (HabitEntry.target h \<le> HabitEntry.completed h)"

text \<open>\<^verbatim>\<open>habitGroups[habitName].sort((a, b) => a.date - b.date)\<close>, a stable sort.\<close>

definition sort_by_date :: "HabitEntry list \<Rightarrow> HabitEntry list" where
  "sort_by_date habits = sort_key (\<lambda>h. getTime (HabitEntry.date h)) habits"

text \<open>
  The streak loop
  \<^verbatim>\<open>for (let i = habits.length - 1; i >= 0; i--) { if (...) currentStreak++; else break; }\<close>.
  The second argument is \<open>i + 1\<close>, so that \<open>0\<close> is the exit \<open>i < 0\<close>.
\<close>

fun streak_loop :: "HabitEntry list \<Rightarrow> nat \<Rightarrow> nat \<Rightarrow> nat" where
  "streak_loop habits 0 currentStreak = currentStreak"
| "streak_loop habits (Suc i) currentStreak =
     (if meets_target (habits ! i) then streak_loop habits i (currentStreak + 1)
      else currentStreak)"

definition group_rate :: "HabitEntry list \<Rightarrow> real" where
  "group_rate habits =
     round_scaled 1000 (real (length (filter meets_target habits)) / real (length habits))"

definition group_streak :: "HabitEntry list \<Rightarrow> nat" where
  "group_streak habits = streak_loop habits (length habits) 0"

definition analyzeHabitPatterns :: "HabitEntry list \<Rightarrow> error + HabitInsights" where
  "analyzeHabitPatterns habitData =
     (if length habitData = 0 then
        Inr \<lparr>completion_rate = Has (Num 0), streaks = Has [], patterns = Has [],
             overall_completion_rate = Undefined, individual_completion_rates = Undefined,
             current_streaks = Undefined, most_consistent_habit = Undefined,
             needs_attention = Undefined\<rparr>
      else
        (case group_by [] (map (\<lambda>entry. (name entry, entry)) habitData) of
           Inl err \<Rightarrow> Inl err
         | Inr habitGroups \<Rightarrow>
             (let sorted_groups =
                    map (\<lambda>(habitName, habits). (habitName, sort_by_date habits))
                      (Object_entries habitGroups);
                  completionRates =
                    map (\<lambda>(habitName, habits). (habitName, group_rate habits)) sorted_groups;
                  streaks_val =
                    map (\<lambda>(habitName, habits). (habitName, group_streak habits)) sorted_groups;
                  totalCompleted = reduce_sum (\<lambda>h. real (HabitEntry.completed h)) habitData;
                  totalTarget = reduce_sum (\<lambda>h. real (HabitEntry.target h)) habitData;
                  overallCompletion =
                    (if 0 < totalTarget then totalCompleted / totalTarget else 0)
              in (case key_of_max completionRates of
                    Inl err \<Rightarrow> Inl err
                  | Inr mostConsistent \<Rightarrow>
                      (case key_of_min completionRates of
                         Inl err \<Rightarrow> Inl err
                       | Inr needsAttention \<Rightarrow>
                           Inr \<lparr>completion_rate = Undefined, streaks = Undefined,
                                patterns = Undefined,
                                overall_completion_rate =
                                  Has (Num (round_scaled 1000 overallCompletion)),
                                individual_completion_rates = Has completionRates,
                                current_streaks = Has streaks_val,
                                most_consistent_habit = Has mostConsistent,
                                needs_attention = Has needsAttention\<rparr>)))))"

subsection \<open>Study performance analyzer\<close>

record StudySession =
  subject :: string
  date :: Date
  duration_minutes :: nat
  completed :: bool
  timestamp :: Date

record bucket =
  sessions :: nat
  completed :: nat
  totalDuration :: nat

record StudyInsights =
  total_sessions :: "nat slot"
  total_minutes :: "nat slot"
  avg_duration :: "jsnum slot"
  efficiency :: "jsnum slot"
  completion_rate :: "jsnum slot"
  best_study_hour :: "nat slot"
  hourly_patterns :: "bucket obj slot"
  subject_performance :: "bucket obj slot"

text \<open>
  The decimal digits of a natural number: the property key a number such as an hour
  converts to, and the text a template literal gives it. \<^verbatim>\<open>parseInt\<close> of such a key
  is \<open>dec_val\<close>.
\<close>

fun show_nat :: "nat \<Rightarrow> string" where
  "show_nat n =
     (if n < 10 then [digit_chars ! n]
      else show_nat (n div 10) @ [digit_chars ! (n mod 10)])"

declare show_nat.simps [simp del]

text \<open>
  \<^verbatim>\<open>data.sessions++; data.totalDuration += session.duration_minutes;
  if (session.completed) data.completed++;\<close>
\<close>

definition tally :: "bucket \<Rightarrow> StudySession \<Rightarrow> bucket" where
  "tally data session =
     data\<lparr>sessions := sessions data + 1,
          totalDuration := totalDuration data + duration_minutes session,
          bucket.completed :=
            (if StudySession.completed session then bucket.completed data + 1
             else bucket.completed data)\<rparr>"

text \<open>
  \<^verbatim>\<open>if (!ob[k]) ob[k] = { sessions: 0, completed: 0, totalDuration: 0 }\<close> followed by
  the tally on \<^verbatim>\<open>ob[k]\<close>. Under a key inherited from \<^verbatim>\<open>Object.prototype\<close> the
  tally lands on the inherited value and \<open>ob\<close> gets no property.
\<close>

definition tally_step :: "bucket obj \<Rightarrow> string \<Rightarrow> StudySession \<Rightarrow> bucket obj" where
  "tally_step ob k session =
     (case map_of ob k of
        Some data \<Rightarrow> obj_set ob k (tally data session)
      | None \<Rightarrow>
          if k \<in> set proto_keys then ob
          else obj_set ob k
                 (tally \<lparr>sessions = 0, bucket.completed = 0, totalDuration = 0\<rparr> session))"

definition hourly_data :: "StudySession list \<Rightarrow> bucket obj" where
  "hourly_data studyData =
     foldl (\<lambda>hourlyData session.
              tally_step hourlyData (show_nat (getHours (timestamp session))) session)
       [] studyData"

definition subject_data :: "StudySession list \<Rightarrow> bucket obj" where
  "subject_data studyData =
     foldl (\<lambda>subjectData session. tally_step subjectData (subject session) session)
       [] studyData"

text \<open>
  The search for the best hour, over \<^verbatim>\<open>Object.keys(hourlyData)\<close>:
  \<^verbatim>\<open>if (rate > bestCompletionRate) { bestCompletionRate = rate; bestHour = parseInt(hour); }\<close>
\<close>

fun best_hour_loop :: "(string \<times> bucket) list \<Rightarrow> nat slot \<Rightarrow> jsnum \<Rightarrow> nat slot" where
  "best_hour_loop [] bestHour bestCompletionRate = bestHour"
| "best_hour_loop ((hour, data) # rest) bestHour bestCompletionRate =
     (let rate = js_div (real (bucket.completed data)) (real (sessions data))
      in if js_less bestCompletionRate rate then best_hour_loop rest (Has (dec_val hour)) rate
         else best_hour_loop rest bestHour bestCompletionRate)"

definition analyzeStudyPerformance :: "StudySession list \<Rightarrow> StudyInsights" where
  "analyzeStudyPerformance studyData =
     (if length studyData = 0 then
        \<lparr>total_sessions = Has 0, total_minutes = Undefined, avg_duration = Has (Num 0),
         efficiency = Has (Num 0), completion_rate = Undefined, best_study_hour = Undefined,
         hourly_patterns = Undefined, subject_performance = Undefined\<rparr>
      else
        (let totalSessions = length studyData;
             totalMinutes = reduce_sum duration_minutes studyData;
             avgDuration = real totalMinutes / real totalSessions;
             completedSessions = length (filter StudySession.completed studyData);
             completionRate = real completedSessions / real totalSessions;
             hourlyData = hourly_data studyData;
             bestHour = best_hour_loop (Object_entries hourlyData) Null (Num 0);
             subjectData = subject_data studyData
         in \<lparr>total_sessions = Has totalSessions, total_minutes = Has totalMinutes,
             avg_duration = Has (Num (round_scaled 10 avgDuration)),
             efficiency = Undefined,
             completion_rate = Has (Num (round_scaled 1000 completionRate)),
             best_study_hour = bestHour,
             hourly_patterns = Has hourlyData,
             subject_performance = Has subjectData\<rparr>))"

subsection \<open>Recommendation generator\<close>

record Insights =
  mood :: "MoodInsights slot"
  habits :: "HabitInsights slot"
  study :: "StudyInsights slot"

definition declining_text :: string where
  "declining_text =
     ''Your mood has been declining recently. Consider incorporating more mindfulness practices or reaching out for support.''"

definition volatility_text :: string where
  "volatility_text =
     ''Your mood shows high variability. Maintaining consistent sleep and exercise routines may help stabilize your emotional well-being.''"

definition completion_text :: string where
  "completion_text =
     ''Your habit completion rate is below 70%. Consider reducing the number of habits or making them smaller and more achievable.''"

definition attention_text :: "string \<Rightarrow> string" where
  "attention_text habit =
     ''Your '' @ [CHR 0x27] @ habit @ [CHR 0x27]
       @ '' habit needs attention. Consider pairing it with an existing strong habit or adjusting the difficulty.''"

definition schedule_text :: "nat \<Rightarrow> string" where
  "schedule_text hour =
     ''You perform best during '' @ show_nat hour
       @ '':00. Try scheduling more important study sessions during this time.''"

text \<open>The rules of one section, each pushing onto \<^verbatim>\<open>recommendations\<close> in turn.\<close>

definition mood_rules :: "MoodInsights \<Rightarrow> string list" where
  "mood_rules m =
     (if trend m = Has ''declining'' then [declining_text] else [])
     @ (if js_less (Num 1.5) (slot_num (volatility m)) then [volatility_text] else [])"

text \<open>A string is truthy when it is not empty, a number when it is neither 0 nor \<open>NaN\<close>.\<close>

definition habit_rules :: "HabitInsights \<Rightarrow> string list" where
  "habit_rules h =
     (if js_less (slot_num (overall_completion_rate h)) (Num 0.7) then [completion_text]
      else [])
     @ (case needs_attention h of
          Has habit \<Rightarrow> if habit \<noteq> [] then [attention_text habit] else []
        | _ \<Rightarrow> [])"

definition study_rules :: "StudyInsights \<Rightarrow> string list" where
  "study_rules s =
     (case best_study_hour s of
        Has hour \<Rightarrow>
          if hour \<noteq> 0 \<and> js_less (slot_num (StudyInsights.completion_rate s)) (Num 0.8)
          then [schedule_text hour] else []
      | _ \<Rightarrow> [])"

definition generateRecommendations :: "Insights \<Rightarrow> string list" where
  "generateRecommendations insights =
     (case mood insights of Has m \<Rightarrow> mood_rules m | _ \<Rightarrow> [])
     @ (case habits insights of Has h \<Rightarrow> habit_rules h | _ \<Rightarrow> [])
     @ (case study insights of Has s \<Rightarrow> study_rules s | _ \<Rightarrow> [])"

subsection \<open>Report assembler\<close>

text \<open>
  What \<^verbatim>\<open>loadUserData\<close> resolves to. The source fills it with random demonstration
  data; here it is an input.
\<close>

record UserData =
  mood :: "MoodEntry list"
  habits :: "HabitEntry list"
  study :: "StudySession list"
  period :: "unit list"

record AnalysisPeriod =
  days :: int
  start_date :: string
  end_date :: string

record DataQuality =
  mood_entries :: nat
  habit_entries :: nat
  study_entries :: nat
  period_entries :: nat

record Report =
  user_id :: string
  analysis_period :: AnalysisPeriod
  insights :: Insights
  recommendations :: "string list"
  generated_at :: string
  data_quality :: DataQuality

text \<open>\<^verbatim>\<open>isoString.split('T')[0]\<close>\<close>

definition date_part :: "string \<Rightarrow> string" where
  "date_part isoString = takeWhile (\<lambda>c. c \<noteq> CHR ''T'') isoString"

text \<open>
  The clock is an input: \<open>now\<close> is the time value \<^verbatim>\<open>Date.now()\<close> and \<^verbatim>\<open>new Date()\<close>
  read, and \<open>toISOString\<close> renders a time value. An exception of a calculator is
  rethrown.
\<close>

definition createWellnessReport ::
  "(int \<Rightarrow> string) \<Rightarrow> int \<Rightarrow> UserData \<Rightarrow> string \<Rightarrow> int \<Rightarrow> error + Report" where
  "createWellnessReport toISOString now data userId days_arg =
     (case calculateMoodInsights (UserData.mood data) of
        Inl err \<Rightarrow> Inl err
      | Inr moodInsights \<Rightarrow>
          (case analyzeHabitPatterns (UserData.habits data) of
             Inl err \<Rightarrow> Inl err
           | Inr habitInsights \<Rightarrow>
               (let studyInsights = analyzeStudyPerformance (UserData.study data);
                    allInsights = \<lparr>Insights.mood = Has moodInsights,
                                   Insights.habits = Has habitInsights,
                                   Insights.study = Has studyInsights\<rparr>
                in Inr \<lparr>user_id = userId,
                        analysis_period =
                          \<lparr>days = days_arg,
                           start_date =
                             date_part (toISOString (now - days_arg * 24 * 60 * 60 * 1000)),
                           end_date = date_part (toISOString now)\<rparr>,
                        insights = allInsights,
                        recommendations = generateRecommendations allInsights,
                        generated_at = toISOString now,
                        data_quality =
                          \<lparr>mood_entries = length (UserData.mood data),
                           habit_entries = length (UserData.habits data),
                           study_entries = length (UserData.study data),
                           period_entries = length (period data)\<rparr>\<rparr>)))"

subsection \<open>Exporters\<close>










text \<open>
  A JSON text is represented by the document it denotes: the layout that
  \<^verbatim>\<open>JSON.stringify(report, null, 2)\<close> gives the text is not modelled, and parsing the
  text of a document gives that document back.
\<close>

datatype json =
  Jnull | Jbool bool | Jnumber real | Jstring string | Jarray "json list"
  | Jobject "(string \<times> json) list"

text \<open>
  The file system is a map from paths to contents. \<^verbatim>\<open>fs.writeFile\<close> either stores the
  whole content or fails, according to the input \<open>writable\<close>; its failure is rethrown.
\<close>

datatype content = Text string | Document json

type_synonym files = "string \<rightharpoonup> content"

definition writeFile :: "(string \<Rightarrow> bool) \<Rightarrow> files \<Rightarrow> string \<Rightarrow> content \<Rightarrow> error + files" where
  "writeFile writable fs path data =
     (if writable path then Inr (fs(path \<mapsto> data)) else Inl ExportIOFailure)"

text \<open>
  \<^verbatim>\<open>if (!outputPath) outputPath = `wellness_report_${report.user_id}_${today}.ext`\<close>,
  where \<open>today\<close> is the date part of the clock's ISO string.
\<close>

definition default_path :: "(int \<Rightarrow> string) \<Rightarrow> int \<Rightarrow> Report \<Rightarrow> string \<Rightarrow> string slot \<Rightarrow> string" where
  "default_path toISOString now report ext outputPath =
     (case outputPath of
        Has path \<Rightarrow>
          if path \<noteq> [] then path
          else ''wellness_report_'' @ user_id report @ ''_'' @ date_part (toISOString now) @ ext
      | _ \<Rightarrow> ''wellness_report_'' @ user_id report @ ''_'' @ date_part (toISOString now) @ ext)"


text \<open>
  JavaScript values as trees. An object is the list of its own enumerable properties in
  the order of \<^verbatim>\<open>Object.keys\<close>.
\<close>

datatype jsvalue =
  JUndefined | JNull | JBool bool | JNumber jsnum | JString string | JArray "jsvalue list"
  | JObject "(string \<times> jsvalue) list"

text \<open>
  \<^verbatim>\<open>JSON.stringify\<close>: a number that is not finite is written as \<^verbatim>\<open>null\<close>; a property
  whose value is \<^verbatim>\<open>undefined\<close> is left out, an array element that is \<^verbatim>\<open>undefined\<close> is
  written as \<^verbatim>\<open>null\<close>, and \<^verbatim>\<open>undefined\<close> itself has no JSON text.
\<close>

fun number_json :: "jsnum \<Rightarrow> json" where
  "number_json (Num v) = Jnumber v"
| "number_json NaN = Jnull"
| "number_json PosInf = Jnull"
| "number_json NegInf = Jnull"

primrec JSON_stringify :: "jsvalue \<Rightarrow> json option" where
  "JSON_stringify JUndefined = None"
| "JSON_stringify JNull = Some Jnull"
| "JSON_stringify (JBool b) = Some (Jbool b)"
| "JSON_stringify (JNumber v) = Some (number_json v)"
| "JSON_stringify (JString s) = Some (Jstring s)"
| "JSON_stringify (JArray vs) =
     Some (Jarray (map (\<lambda>j. case j of None \<Rightarrow> Jnull | Some d \<Rightarrow> d)
                    (map JSON_stringify vs)))"
| "JSON_stringify (JObject kvs) =
     Some (Jobject (List.map_filter (\<lambda>(k, j). map_option (Pair k) j)
                     (map (map_prod id JSON_stringify) kvs)))"

primrec JSON_parse :: "json \<Rightarrow> jsvalue" where
  "JSON_parse Jnull = JNull"
| "JSON_parse (Jbool b) = JBool b"
| "JSON_parse (Jnumber v) = JNumber (Num v)"
| "JSON_parse (Jstring s) = JString s"
| "JSON_parse (Jarray js) = JArray (map JSON_parse js)"
| "JSON_parse (Jobject kvs) = JObject (map (map_prod id JSON_parse) kvs)"

text \<open>The report as a JavaScript value. A property that is not there gives no entry.\<close>

fun slot_prop :: "string \<Rightarrow> ('a \<Rightarrow> jsvalue) \<Rightarrow> 'a slot \<Rightarrow> (string \<times> jsvalue) list" where
  "slot_prop k f (Has v) = [(k, f v)]"
| "slot_prop k f Null = [(k, JNull)]"
| "slot_prop k f Undefined = []"

definition nat_value :: "nat \<Rightarrow> jsvalue" where
  "nat_value n = JNumber (Num (real n))"

definition obj_value :: "('v \<Rightarrow> jsvalue) \<Rightarrow> 'v obj \<Rightarrow> jsvalue" where
  "obj_value f ob = JObject (map (\<lambda>(k, v). (k, f v)) (Object_entries ob))"

definition mood_value :: "MoodInsights \<Rightarrow> jsvalue" where
  "mood_value m =
     JObject (slot_prop ''average'' JNumber (average m)
       @ slot_prop ''trend'' JString (trend m)
       @ slot_prop ''trend_slope'' JNumber (trend_slope m)
       @ slot_prop ''volatility'' JNumber (volatility m)
       @ slot_prop ''best_weekday'' JString (best_weekday m)
       @ slot_prop ''worst_weekday'' JString (worst_weekday m)
       @ slot_prop ''weekday_patterns'' (obj_value (\<lambda>v. JNumber (Num v))) (weekday_patterns m))"

definition habits_value :: "HabitInsights \<Rightarrow> jsvalue" where
  "habits_value h =
     JObject (slot_prop ''completion_rate'' JNumber (HabitInsights.completion_rate h)
       @ slot_prop ''streaks'' (obj_value nat_value) (streaks h)
       @ slot_prop ''patterns'' (obj_value nat_value) (patterns h)
       @ slot_prop ''overall_completion_rate'' JNumber (overall_completion_rate h)
       @ slot_prop ''individual_completion_rates'' (obj_value (\<lambda>v. JNumber (Num v)))
           (individual_completion_rates h)
       @ slot_prop ''current_streaks'' (obj_value nat_value) (current_streaks h)
       @ slot_prop ''most_consistent_habit'' JString (most_consistent_habit h)
       @ slot_prop ''needs_attention'' JString (needs_attention h))"

definition hour_bucket_value :: "bucket \<Rightarrow> jsvalue" where
  "hour_bucket_value data =
     JObject [(''sessions'', nat_value (sessions data)),
              (''completed'', nat_value (bucket.completed data)),
              (''totalDuration'', nat_value (totalDuration data))]"

definition subject_bucket_value :: "bucket \<Rightarrow> jsvalue" where
  "subject_bucket_value data =
     JObject [(''sessions'', nat_value (sessions data)),
              (''totalDuration'', nat_value (totalDuration data)),
              (''completed'', nat_value (bucket.completed data))]"

definition study_value :: "StudyInsights \<Rightarrow> jsvalue" where
  "study_value s =
     JObject (slot_prop ''total_sessions'' nat_value (total_sessions s)
       @ slot_prop ''total_minutes'' nat_value (total_minutes s)
       @ slot_prop ''avg_duration'' JNumber (avg_duration s)
       @ slot_prop ''efficiency'' JNumber (efficiency s)
       @ slot_prop ''completion_rate'' JNumber (StudyInsights.completion_rate s)
       @ slot_prop ''best_study_hour'' nat_value (best_study_hour s)
       @ slot_prop ''hourly_patterns'' (obj_value hour_bucket_value) (hourly_patterns s)
       @ slot_prop ''subject_performance'' (obj_value subject_bucket_value)
           (subject_performance s))"

definition insights_value :: "Insights \<Rightarrow> jsvalue" where
  "insights_value ins =
     JObject (slot_prop ''mood'' mood_value (Insights.mood ins)
       @ slot_prop ''habits'' habits_value (Insights.habits ins)
       @ slot_prop ''study'' study_value (Insights.study ins))"

definition report_value :: "Report \<Rightarrow> jsvalue" where
  "report_value report =
     JObject [(''user_id'', JString (user_id report)),
              (''analysis_period'',
                 JObject [(''days'', JNumber (Num (real_of_int (days (analysis_period report))))),
                          (''start_date'', JString (start_date (analysis_period report))),
                          (''end_date'', JString (end_date (analysis_period report)))]),
              (''insights'', insights_value (insights report)),
              (''recommendations'', JArray (map JString (recommendations report))),
              (''generated_at'', JString (generated_at report)),
              (''data_quality'',
                 JObject [(''mood_entries'', nat_value (mood_entries (data_quality report))),
                          (''habit_entries'', nat_value (habit_entries (data_quality report))),
                          (''study_entries'', nat_value (study_entries (data_quality report))),
                          (''period_entries'',
                             nat_value (period_entries (data_quality report)))])]"

text \<open>
  \<^verbatim>\<open>fs.writeFile(outputPath, JSON.stringify(report, null, 2))\<close>. A report is an object,
  so that it always has a JSON text.
\<close>

definition exportReportJSON ::
  "(int \<Rightarrow> string) \<Rightarrow> int \<Rightarrow> (string \<Rightarrow> bool) \<Rightarrow> files \<Rightarrow> Report
     \<Rightarrow> string slot \<Rightarrow> error + string \<times> files" where
  "exportReportJSON toISOString now writable fs report outputPath =
     (let path = default_path toISOString now report ''.json'' outputPath
      in (case JSON_stringify (report_value report) of
            None \<Rightarrow> Inl TypeError
          | Some doc \<Rightarrow>
              (case writeFile writable fs path (Document doc) of
                 Inl err \<Rightarrow> Inl err
               | Inr fs' \<Rightarrow> Inr (path, fs'))))"

subsection \<open>Notions of the specification\<close>

text \<open>The mood levels of a series, as numbers.\<close>

definition mood_levels :: "MoodEntry list \<Rightarrow> real list" where
  "mood_levels moodData = map (\<lambda>entry. real_of_int (mood_level entry)) moodData"

text \<open>
  The least-squares slope of the values against their 0-based position:
  \<open>(n \<cdot> \<Sigma>xy - \<Sigma>x \<cdot> \<Sigma>y) / (n \<cdot> \<Sigma>x\<^sup>2 - (\<Sigma>x)\<^sup>2)\<close>.
\<close>

definition ols_slope :: "real list \<Rightarrow> real" where
  "ols_slope ys =
     (let n = real (length ys);
          sx = (\<Sum>i \<leftarrow> [0..<length ys]. real i);
          sy = (\<Sum>i \<leftarrow> [0..<length ys]. ys ! i);
          sxy = (\<Sum>i \<leftarrow> [0..<length ys]. real i * ys ! i);
          sxx = (\<Sum>i \<leftarrow> [0..<length ys]. real i * real i)
      in (n * sxy - sx * sy) / (n * sxx - sx * sx))"


definition arithmetic_mean :: "real list \<Rightarrow> real" where
  "arithmetic_mean ys = sum_list ys / real (length ys)"


text \<open>The values pushed under key \<open>k\<close> by a sequence of pushes, in order.\<close>

definition pushed :: "(string \<times> 'v) list \<Rightarrow> string \<Rightarrow> 'v list" where
  "pushed kvs k = map snd (filter (\<lambda>p. fst p = k) kvs)"

text \<open>
  The entries of one habit in date-ascending order, entries of the same date in input
  order.
\<close>

definition habit_group :: "HabitEntry list \<Rightarrow> string \<Rightarrow> HabitEntry list" where
  "habit_group habitData habit =
     sort_key (\<lambda>h. getTime (HabitEntry.date h)) (filter (\<lambda>h. name h = habit) habitData)"

text \<open>The length of the maximal run of \<open>True\<close> at the end of a list.\<close>

definition trailing_run :: "bool list \<Rightarrow> nat" where
  "trailing_run bs = length (takeWhile (\<lambda>b. b) (rev bs))"

text \<open>The quantity-weighted rate \<open>\<Sigma>completed / \<Sigma>target\<close>.\<close>

definition total_completed :: "HabitEntry list \<Rightarrow> nat" where
  "total_completed habitData = (\<Sum>h \<leftarrow> habitData. HabitEntry.completed h)"

definition total_target :: "HabitEntry list \<Rightarrow> nat" where
  "total_target habitData = (\<Sum>h \<leftarrow> habitData. target h)"

definition weighted_rate :: "HabitEntry list \<Rightarrow> real" where
  "weighted_rate habitData = real (total_completed habitData) / real (total_target habitData)"

text \<open>
  Decoding the structured export of a report: \<^verbatim>\<open>JSON.parse\<close> of the text that
  \<^verbatim>\<open>JSON.stringify\<close> gave.
\<close>

definition decode_export :: "Report \<Rightarrow> jsvalue option" where
  "decode_export report = map_option JSON_parse (JSON_stringify (report_value report))"

text \<open>A value that holds no \<^verbatim>\<open>undefined\<close> and no number that is not finite.\<close>

fun finite_num :: "jsnum \<Rightarrow> bool" where
  "finite_num (Num v) = True"
| "finite_num NaN = False"
| "finite_num PosInf = False"
| "finite_num NegInf = False"

fun json_safe :: "jsvalue \<Rightarrow> bool" where
  "json_safe JUndefined = False"
| "json_safe JNull = True"
| "json_safe (JBool b) = True"
| "json_safe (JNumber v) = finite_num v"
| "json_safe (JString s) = True"
| "json_safe (JArray vs) = list_all json_safe vs"
| "json_safe (JObject kvs) = list_all (\<lambda>kv. json_safe (snd kv)) kvs"

text \<open>The property read \<^verbatim>\<open>v[k]\<close> on an object of own properties.\<close>

fun prop_of :: "string \<Rightarrow> jsvalue \<Rightarrow> jsvalue" where
  "prop_of k (JObject kvs) = (case map_of kvs k of Some v \<Rightarrow> v | None \<Rightarrow> JUndefined)"
| "prop_of k v = JUndefined"

subsection \<open>Example inputs\<close>

text \<open>Day \<open>i\<close> after 1 January 1970, a Thursday, at midnight.\<close>

definition example_date :: "nat \<Rightarrow> Date" where
  "example_date i =
     \<lparr>getTime = int i * 86400000,
      weekday = [Thursday, Friday, Saturday, Sunday, Monday, Tuesday, Wednesday] ! (i mod 7),
      getHours = 0\<rparr>"

definition mood_on :: "nat \<Rightarrow> int \<Rightarrow> MoodEntry" where
  "mood_on i level =
     \<lparr>MoodEntry.date = example_date i, mood_level = level, energy_level = 50,
      entry_notes = ''Feeling good today''\<rparr>"

text \<open>One entry a day with the given mood levels.\<close>

definition mood_series :: "int list \<Rightarrow> MoodEntry list" where
  "mood_series levels = map (\<lambda>(i, level). mood_on i level) (enumerate 0 levels)"

text \<open>One entry of a habit on day \<open>i\<close>.\<close>

definition habit_on :: "string \<Rightarrow> nat \<Rightarrow> nat \<Rightarrow> nat \<Rightarrow> HabitEntry" where
  "habit_on habit i done goal =
     \<lparr>name = habit, HabitEntry.date = example_date i, HabitEntry.completed = done,
      target = goal\<rparr>"

text \<open>Six days of one habit with target 1: met, met, missed, met, met, met.\<close>

definition hydration_days :: "HabitEntry list" where
  "hydration_days =
     map (\<lambda>(i, done). habit_on ''Hydration'' i done 1) (enumerate 0 [1, 1, 0, 1, 1, 1])"

text \<open>One study session on day \<open>i\<close> at the given hour.\<close>

definition session_at :: "nat \<Rightarrow> nat \<Rightarrow> bool \<Rightarrow> StudySession" where
  "session_at i hour finished =
     \<lparr>subject = ''Mathematics'', StudySession.date = example_date i, duration_minutes = 30,
      StudySession.completed = finished,
      timestamp = (example_date i)\<lparr>getHours := hour\<rparr>\<rparr>"


text \<open>Two sessions in the hour after midnight, the first one completed.\<close>

definition midnight_sessions :: "StudySession list" where
  "midnight_sessions = [session_at 0 0 True, session_at 1 0 False]"


text \<open>The data of one day: a single mood entry of level 3, no habits, no sessions.\<close>

definition single_day :: UserData where
  "single_day =
     \<lparr>UserData.mood = [mood_on 0 3], UserData.habits = [], UserData.study = [], period = []\<rparr>"

definition fixed_clock :: "int \<Rightarrow> string" where
  "fixed_clock t = ''1970-01-01T12:00:00.000Z''"

text \<open>The report the assembler gives for that day.\<close>

definition single_day_report :: Report where
  "single_day_report =
     \<lparr>user_id = ''test_user_1'',
      analysis_period = \<lparr>days = 0, start_date = ''1970-01-01'', end_date = ''1970-01-01''\<rparr>,
      insights =
        \<lparr>Insights.mood =
           Has \<lparr>average = Has (Num 3), trend = Has ''stable'', trend_slope = Has NaN,
                volatility = Has (Num 0), best_weekday = Has ''Thursday'',
                worst_weekday = Has ''Thursday'',
                weekday_patterns = Has [(''Thursday'', 3)]\<rparr>,
         Insights.habits =
           Has \<lparr>HabitInsights.completion_rate = Has (Num 0), streaks = Has [],
                patterns = Has [], overall_completion_rate = Undefined,
                individual_completion_rates = Undefined, current_streaks = Undefined,
                most_consistent_habit = Undefined, needs_attention = Undefined\<rparr>,
         Insights.study =
           Has \<lparr>total_sessions = Has 0, total_minutes = Undefined, avg_duration = Has (Num 0),
                efficiency = Has (Num 0), StudyInsights.completion_rate = Undefined,
                best_study_hour = Undefined, hourly_patterns = Undefined,
                subject_performance = Undefined\<rparr>\<rparr>,
      recommendations = [],
      generated_at = ''1970-01-01T12:00:00.000Z'',
      data_quality = \<lparr>mood_entries = 1, habit_entries = 0, study_entries = 0,
                      period_entries = 0\<rparr>\<rparr>"

section \<open>Properties\<close>

subsection \<open>Sums, objects and grouping\<close>

lemma foldl_add_sum_list:
  "foldl (\<lambda>sum e. sum + f e) a arr = a + sum_list (map f arr)"
  for a :: "'b::comm_monoid_add"
  by (induction arr arbitrary: a) (simp_all add: add.assoc)

lemma reduce_sum_sum_list: "reduce_sum f arr = sum_list (map f arr)"
  by (simp add: reduce_sum_def foldl_add_sum_list)

lemma length_Object_keys: "length (Object_keys ob) = length ob"
  by (simp add: Object_keys_def sum_length_filter_compl [where xs = "map fst ob", simplified])

lemma set_Object_keys: "set (Object_keys ob) = fst ` set ob"
  by (auto simp: Object_keys_def)

lemma map_of_map_filter_keys:
  "map_of (List.map_filter (\<lambda>k. map_option (Pair k) (m k)) ks) k
     = (if k \<in> set ks then m k else None)"
  by (induction ks) (auto split: option.splits)

lemma map_of_Object_entries: "map_of (Object_entries ob) = map_of ob"
proof
  fix k
  show "map_of (Object_entries ob) k = map_of ob k"
  proof (cases "k \<in> fst ` set ob")
    case True
    then show ?thesis
      by (simp add: Object_entries_def map_of_map_filter_keys set_Object_keys)
  next
    case False
    then have "map_of ob k = None" by (simp add: map_of_eq_None_iff)
    with False show ?thesis
      by (simp add: Object_entries_def map_of_map_filter_keys set_Object_keys)
  qed
qed

lemma map_fst_map_filter_keys:
  "\<forall>k \<in> set ks. m k \<noteq> None \<Longrightarrow>
     map fst (List.map_filter (\<lambda>k. map_option (Pair k) (m k)) ks) = ks"
  by (induction ks) (auto split: option.splits)

lemma map_fst_Object_entries: "map fst (Object_entries ob) = Object_keys ob"
  unfolding Object_entries_def
  by (rule map_fst_map_filter_keys) (auto simp: set_Object_keys map_of_eq_None_iff)

lemma length_Object_entries: "length (Object_entries ob) = length ob"
  using map_fst_Object_entries [of ob] length_Object_keys [of ob]
  by (metis length_map)

lemma streak_loop_takeWhile:
  "k \<le> length hs \<Longrightarrow>
     streak_loop hs k c = c + length (takeWhile meets_target (rev (take k hs)))"
proof (induction k arbitrary: c)
  case 0
  then show ?case by simp
next
  case (Suc i)
  then have "take (Suc i) hs = take i hs @ [hs ! i]"
    by (simp add: take_Suc_conv_app_nth)
  with Suc show ?case by simp
qed

lemma group_streak_takeWhile:
  "group_streak hs = length (takeWhile meets_target (rev hs))"
  by (simp add: group_streak_def streak_loop_takeWhile)

lemma map_of_overwrite:
  "map_of (map (\<lambda>(k', v'). (k', if k' = k then v else v')) xs) j
     = (if j = k then map_option (\<lambda>_. v) (map_of xs k) else map_of xs j)"
  by (induction xs) auto

lemma map_of_obj_set: "map_of (obj_set ob k v) = (map_of ob)(k \<mapsto> v)"
proof (cases "k \<in> fst ` set ob")
  case True
  then obtain v0 where "map_of ob k = Some v0"
    by (metis map_of_eq_None_iff not_Some_eq)
  with True show ?thesis
    by (auto simp: obj_set_def fun_eq_iff map_of_overwrite)
next
  case False
  then have "map_of ob k = None" by (simp add: map_of_eq_None_iff)
  with False show ?thesis
    by (auto simp: obj_set_def fun_eq_iff map_add_def split: option.splits)
qed

lemma obj_set_not_Nil: "obj_set ob k v \<noteq> []"
  by (cases ob) (auto simp: obj_set_def)

lemma group_push_Inr:
  "group_push g k e = Inr g' \<Longrightarrow>
     map_of g' = (map_of g)(k \<mapsto> (case map_of g k of Some arr \<Rightarrow> arr @ [e] | None \<Rightarrow> [e]))"
  by (auto simp: group_push_def map_of_obj_set split: option.splits if_splits)

lemma group_by_map_of:
  "group_by g kvs = Inr g' \<Longrightarrow>
     map_of g' k =
       (case map_of g k of
          Some arr \<Rightarrow> Some (arr @ pushed kvs k)
        | None \<Rightarrow> if pushed kvs k = [] then None else Some (pushed kvs k))"
proof (induction kvs arbitrary: g)
  case Nil
  then show ?case by (auto simp: pushed_def split: option.splits)
next
  case (Cons p kvs)
  obtain k' e where p: "p = (k', e)" by (cases p)
  from Cons.prems p obtain g1 where g1: "group_push g k' e = Inr g1" and rest: "group_by g1 kvs = Inr g'"
    by (auto split: sum.splits)
  note m1 = group_push_Inr [OF g1]
  show ?case
    using Cons.IH [OF rest] p
    by (auto simp: m1 pushed_def split: option.splits)
qed

lemma group_by_total:
  "\<forall>p \<in> set kvs. fst p \<notin> set proto_keys \<Longrightarrow> \<exists>g'. group_by g kvs = Inr g'"
proof (induction kvs arbitrary: g)
  case Nil
  then show ?case by simp
next
  case (Cons p kvs)
  obtain k' e where p: "p = (k', e)" by (cases p)
  with Cons.prems have "k' \<notin> set proto_keys" by simp
  then have "\<exists>g1. group_push g k' e = Inr g1"
    by (cases "map_of g k'") (simp_all add: group_push_def)
  then obtain g1 where g1: "group_push g k' e = Inr g1" ..
  with Cons p show ?case by auto
qed

lemma group_by_not_Nil:
  assumes "group_by g kvs = Inr g'" "kvs \<noteq> []"
  shows "g' \<noteq> []"
proof -
  from assms(2) obtain k e rest where kvs: "kvs = (k, e) # rest" by (cases kvs) auto
  then have "pushed kvs k \<noteq> []" by (simp add: pushed_def)
  with group_by_map_of [OF assms(1), of k] have "map_of g' k \<noteq> None"
    by (auto split: option.splits)
  then show ?thesis by auto
qed

lemma weekday_name_not_proto: "weekday_name d \<notin> set proto_keys"
  by (cases d) (simp_all add: proto_keys_def)

lemma reduce1_Inr: "arr \<noteq> [] \<Longrightarrow> \<exists>k. reduce1 f arr = Inr k"
  by (cases arr) simp_all

lemma key_of_max_Inr: "ob \<noteq> [] \<Longrightarrow> \<exists>k. key_of_max ob = Inr k"
  unfolding key_of_max_def
  by (rule reduce1_Inr) (use length_Object_keys [of ob] in auto)

lemma key_of_min_Inr: "ob \<noteq> [] \<Longrightarrow> \<exists>k. key_of_min ob = Inr k"
  unfolding key_of_min_def
  by (rule reduce1_Inr) (use length_Object_keys [of ob] in auto)

lemma weekday_averages_not_Nil: "wm \<noteq> [] \<Longrightarrow> weekday_averages wm \<noteq> []"
  using length_Object_entries [of wm] by (auto simp: weekday_averages_def)

lemma calculateMoodInsights_nonempty:
  assumes "moodData \<noteq> []"
  shows "\<exists>bestDay worstDay avgs.
    calculateMoodInsights moodData =
      Inr \<lparr>average = Has (Num (round_scaled 100
                (sum_list (mood_levels moodData) / real (length moodData)))),
           trend = Has (trend_label (calculateTrend (trend_points moodData))),
           trend_slope = Has (round_scaled_num 10000 (calculateTrend (trend_points moodData))),
           volatility = Has (Num (round_scaled 100 (sqrt
                (sum_list (map (\<lambda>v. (v - sum_list (mood_levels moodData) / real (length moodData)) ^ 2)
                   (mood_levels moodData)) / real (length moodData))))),
           best_weekday = Has bestDay, worst_weekday = Has worstDay,
           weekday_patterns = Has avgs\<rparr>"
proof -
  let ?kvs = "map (\<lambda>entry. (weekday_name (weekday (MoodEntry.date entry)), mood_level entry)) moodData"
  have "\<forall>p \<in> set ?kvs. fst p \<notin> set proto_keys"
    by (auto simp: weekday_name_not_proto)
  from group_by_total [OF this] obtain wm where wm: "group_by [] ?kvs = Inr wm" by blast
  from assms have "?kvs \<noteq> []" by simp
  from group_by_not_Nil [OF wm this] have "weekday_averages wm \<noteq> []"
    by (rule weekday_averages_not_Nil)
  then obtain b w where b: "key_of_max (weekday_averages wm) = Inr b"
    and w: "key_of_min (weekday_averages wm) = Inr w"
    using key_of_max_Inr key_of_min_Inr by blast
  show ?thesis
    using assms wm b w
    by (simp add: calculateMoodInsights_def Let_def reduce_sum_sum_list mood_levels_def comp_def)
qed

subsection \<open>Least squares and rounding\<close>

lemma trend_points_nth:
  "trend_points moodData =
     map (\<lambda>i. \<lparr>px = real i, py = mood_levels moodData ! i\<rparr>) [0..<length moodData]"
  by (rule nth_equalityI) (simp_all add: trend_points_def mood_levels_def nth_enumerate_eq)

lemma sum_index: "(\<Sum>i \<leftarrow> [0..<n]. real i) = real n * (real n - 1) / 2"
  by (induction n) (simp_all add: field_simps)

lemma sum_index_sq: "(\<Sum>i \<leftarrow> [0..<n]. real i * real i) = (real n - 1) * real n * (2 * real n - 1) / 6"
  by (induction n) (simp_all add: field_simps)

lemma ols_denominator:
  "real n * (\<Sum>i \<leftarrow> [0..<n]. real i * real i) - (\<Sum>i \<leftarrow> [0..<n]. real i) * (\<Sum>i \<leftarrow> [0..<n]. real i)
     = (real n)\<^sup>2 * ((real n)\<^sup>2 - 1) / 12"
  by (simp add: sum_index sum_index_sq field_simps power2_eq_square)

lemma ols_denominator_pos:
  assumes "2 \<le> n"
  shows "0 < real n * (\<Sum>i \<leftarrow> [0..<n]. real i * real i) - (\<Sum>i \<leftarrow> [0..<n]. real i) * (\<Sum>i \<leftarrow> [0..<n]. real i)"
proof -
  from assms have "2 \<le> real n" by simp
  then have "1 < (real n)\<^sup>2"
    by (smt (verit) one_less_power zero_less_numeral pos2)
  moreover have "0 < (real n)\<^sup>2" using assms by simp
  ultimately show ?thesis
    by (simp add: ols_denominator)
qed

lemma calculateTrend_ols:
  assumes "2 \<le> length moodData"
  shows "calculateTrend (trend_points moodData) = Num (ols_slope (mood_levels moodData))"
proof -
  have len: "length (mood_levels moodData) = length moodData"
    by (simp add: mood_levels_def)
  have "real (length moodData) * (\<Sum>i \<leftarrow> [0..<length moodData]. real i * real i)
          - (\<Sum>i \<leftarrow> [0..<length moodData]. real i) * (\<Sum>i \<leftarrow> [0..<length moodData]. real i) \<noteq> 0"
    using ols_denominator_pos [OF assms] by simp
  then show ?thesis
    by (simp add: calculateTrend_def Let_def reduce_sum_sum_list trend_points_nth comp_def
        js_div_def ols_slope_def len)
qed


lemma mood_levels_series: "mood_levels (mood_series levels) = map real_of_int levels"
proof -
  have "map (\<lambda>p. real_of_int (snd p)) (enumerate 0 levels)
          = map real_of_int (map snd (enumerate 0 levels))"
    by (simp only: map_map comp_def)
  then show ?thesis
    by (simp add: mood_levels_def mood_series_def mood_on_def comp_def case_prod_unfold)
qed



lemma length_mood_levels: "length (mood_levels moodData) = length moodData"
  by (simp add: mood_levels_def)

lemma sum_list_map_mset:
  fixes f :: "'a \<Rightarrow> real"
  assumes "mset xs = mset ys"
  shows "sum_list (map f xs) = sum_list (map f ys)"
proof -
  have "sum_list (map f xs) = sum_mset (image_mset f (mset xs))"
    by (metis mset_map sum_mset_sum_list)
  also have "\<dots> = sum_mset (image_mset f (mset ys))" by (simp add: assms)
  also have "\<dots> = sum_list (map f ys)"
    by (metis mset_map sum_mset_sum_list)
  finally show ?thesis .
qed

lemma calculateMoodInsights_average:
  "\<exists>r. calculateMoodInsights moodData = Inr r
     \<and> average r =
         Has (Num (if moodData = [] then 0
                   else round_scaled 100 (arithmetic_mean (mood_levels moodData))))"
proof (cases "moodData = []")
  case True
  then show ?thesis by (simp add: calculateMoodInsights_def)
next
  case False
  from calculateMoodInsights_nonempty [OF False] show ?thesis
    using False by (force simp: arithmetic_mean_def length_mood_levels)
qed

lemma mood_levels_rev: "mood_levels (rev moodData) = rev (mood_levels moodData)"
  by (simp add: mood_levels_def rev_map)

subsection \<open>Empty series\<close>


subsection \<open>Habit groups and streaks\<close>

lemma pushed_habits:
  "pushed (map (\<lambda>entry. (name entry, entry)) habitData) k = filter (\<lambda>h. name h = k) habitData"
  by (induction habitData) (simp_all add: pushed_def)

lemma map_of_map_values: "map_of (map (\<lambda>(k, v). (k, f v)) xs) j = map_option f (map_of xs j)"
  by (induction xs) auto

lemma group_streak_trailing_run:
  "group_streak hs = trailing_run (map meets_target hs)"
  by (simp add: group_streak_takeWhile trailing_run_def rev_map takeWhile_map comp_def)

lemma trailing_run_last: "bs \<noteq> [] \<Longrightarrow> \<not> last bs \<Longrightarrow> trailing_run bs = 0"
  by (cases bs rule: rev_cases) (simp_all add: trailing_run_def)

lemma real_sum_list: "(\<Sum>h \<leftarrow> xs. real (f h)) = real (\<Sum>h \<leftarrow> xs. f h)"
  by (induction xs) simp_all

lemma analyzeHabitPatterns_Inr:
  assumes "habitData \<noteq> []"
    and "group_by [] (map (\<lambda>entry. (name entry, entry)) habitData) = Inr hg"
  shows "\<exists>mc na. analyzeHabitPatterns habitData =
    Inr \<lparr>HabitInsights.completion_rate = Undefined, streaks = Undefined, patterns = Undefined,
         overall_completion_rate =
           Has (Num (round_scaled 1000
              (if 0 < total_target habitData then weighted_rate habitData else 0))),
         individual_completion_rates =
           Has (map (\<lambda>(habitName, hs). (habitName, group_rate hs))
                  (map (\<lambda>(habitName, hs). (habitName, sort_by_date hs)) (Object_entries hg))),
         current_streaks =
           Has (map (\<lambda>(habitName, hs). (habitName, group_streak hs))
                  (map (\<lambda>(habitName, hs). (habitName, sort_by_date hs)) (Object_entries hg))),
         most_consistent_habit = Has mc, needs_attention = Has na\<rparr>"
proof -
  let ?rates = "map (\<lambda>(habitName, hs). (habitName, group_rate hs))
                  (map (\<lambda>(habitName, hs). (habitName, sort_by_date hs)) (Object_entries hg))"
  from assms have "hg \<noteq> []" by (auto dest: group_by_not_Nil)
  then have "?rates \<noteq> []" using length_Object_entries [of hg] by auto
  then obtain mc na where "key_of_max ?rates = Inr mc" "key_of_min ?rates = Inr na"
    using key_of_max_Inr key_of_min_Inr by blast
  moreover have "reduce_sum (\<lambda>h. real (target h)) habitData = real (total_target habitData)"
    "reduce_sum (\<lambda>h. real (HabitEntry.completed h)) habitData
       = real (total_completed habitData)"
    by (simp_all add: reduce_sum_sum_list total_target_def total_completed_def real_sum_list)
  ultimately show ?thesis
    using assms by (simp add: analyzeHabitPatterns_def Let_def weighted_rate_def)
qed

lemma analyzeHabitPatterns_groups:
  assumes "analyzeHabitPatterns habitData = Inr r" "habitData \<noteq> []"
  shows "\<exists>hg. group_by [] (map (\<lambda>entry. (name entry, entry)) habitData) = Inr hg"
  using assms by (auto simp: analyzeHabitPatterns_def split: sum.splits)

lemma analyzeHabitPatterns_total:
  assumes "\<forall>e \<in> set habitData. name e \<notin> set proto_keys"
  shows "\<exists>r. analyzeHabitPatterns habitData = Inr r"
proof (cases "habitData = []")
  case True
  then show ?thesis by (simp add: analyzeHabitPatterns_def)
next
  case False
  from assms have "\<forall>p \<in> set (map (\<lambda>entry. (name entry, entry)) habitData). fst p \<notin> set proto_keys"
    by auto
  from group_by_total [OF this] obtain hg where
    "group_by [] (map (\<lambda>entry. (name entry, entry)) habitData) = Inr hg" by blast
  from analyzeHabitPatterns_Inr [OF False this] show ?thesis by blast
qed

lemma current_streaks_lookup:
  assumes "analyzeHabitPatterns habitData = Inr r" and "e \<in> set habitData"
  shows "\<exists>table. current_streaks r = Has table
    \<and> map_of table (name e) = Some (group_streak (habit_group habitData (name e)))"
proof -
  from assms(2) have ne: "habitData \<noteq> []" by auto
  from analyzeHabitPatterns_groups [OF assms(1) ne] obtain hg where
    hg: "group_by [] (map (\<lambda>entry. (name entry, entry)) habitData) = Inr hg" by blast
  from assms(2) have "filter (\<lambda>h. name h = name e) habitData \<noteq> []"
    by (auto simp: filter_empty_conv)
  with group_by_map_of [OF hg, of "name e"]
  have look: "map_of hg (name e) = Some (filter (\<lambda>h. name h = name e) habitData)"
    by (simp add: pushed_habits)
  from analyzeHabitPatterns_Inr [OF ne hg] assms(1)
  have "current_streaks r =
          Has (map (\<lambda>(habitName, hs). (habitName, group_streak hs))
                 (map (\<lambda>(habitName, hs). (habitName, sort_by_date hs)) (Object_entries hg)))"
    by auto
  moreover have "map_of (map (\<lambda>(habitName, hs). (habitName, group_streak hs))
                 (map (\<lambda>(habitName, hs). (habitName, sort_by_date hs)) (Object_entries hg))) (name e)
       = Some (group_streak (habit_group habitData (name e)))"
    by (simp only: map_of_map_values map_of_Object_entries look habit_group_def
        sort_by_date_def option.map)
  ultimately show ?thesis by blast
qed

text \<open>
  C2. The analyzer returns whenever no habit name is a property of
  \<^verbatim>\<open>Object.prototype\<close>. Whenever it returns, the \<open>current_streak\<close> of the habit of any
  entry is the length of the maximal trailing run of entries meeting their target, the
  entries of the habit taken in date-ascending order; it is 0 when the most recent entry
  misses its target, and it is 3 for the sequence met, met, missed, met, met, met.
\<close>

theorem current_streak_trailing_run:
  "((\<forall>e \<in> set habitData. name e \<notin> set proto_keys) \<longrightarrow>
      (\<exists>r. analyzeHabitPatterns habitData = Inr r))
   \<and> (\<forall>r e. analyzeHabitPatterns habitData = Inr r \<and> e \<in> set habitData \<longrightarrow>
        (\<exists>table streak. current_streaks r = Has table
           \<and> map_of table (name e) = Some streak
           \<and> streak = trailing_run (map meets_target (habit_group habitData (name e)))
           \<and> (\<not> meets_target (last (habit_group habitData (name e))) \<longrightarrow> streak = 0)
           \<and> (map meets_target (habit_group habitData (name e))
                 = [True, True, False, True, True, True] \<longrightarrow> streak = 3)))"
proof (intro conjI allI impI)
  assume "\<forall>e \<in> set habitData. name e \<notin> set proto_keys"
  then show "\<exists>r. analyzeHabitPatterns habitData = Inr r"
    by (rule analyzeHabitPatterns_total)
next
  fix r e
  assume a: "analyzeHabitPatterns habitData = Inr r \<and> e \<in> set habitData"
  let ?g = "habit_group habitData (name e)"
  from a have "e \<in> set (filter (\<lambda>h. name h = name e) habitData)" by simp
  then have gne: "?g \<noteq> []" unfolding habit_group_def by (metis empty_iff empty_set set_sort)
  from current_streaks_lookup [of habitData r e] a obtain table where
    t: "current_streaks r = Has table"
       "map_of table (name e) = Some (trailing_run (map meets_target ?g))"
    by (auto simp: group_streak_trailing_run)
  have z: "trailing_run (map meets_target ?g) = 0" if "\<not> meets_target (last ?g)"
    using that gne by (intro trailing_run_last) (simp_all add: last_map)
  have ex: "trailing_run [True, True, False, True, True, True] = 3"
    by (simp add: trailing_run_def)
  show "\<exists>table streak. current_streaks r = Has table
           \<and> map_of table (name e) = Some streak
           \<and> streak = trailing_run (map meets_target ?g)
           \<and> (\<not> meets_target (last ?g) \<longrightarrow> streak = 0)
           \<and> (map meets_target ?g = [True, True, False, True, True, True] \<longrightarrow> streak = 3)"
    using t z ex by auto
qed

theorem current_streak_trailing_run_witness:
  "habit_on ''Hydration'' 5 1 1 \<in> set hydration_days
   \<and> map meets_target (habit_group hydration_days ''Hydration'')
       = [True, True, False, True, True, True]
   \<and> (\<exists>r table. analyzeHabitPatterns hydration_days = Inr r
         \<and> current_streaks r = Has table \<and> map_of table ''Hydration'' = Some 3)"
proof -
  have days: "hydration_days =
      [habit_on ''Hydration'' 0 1 1, habit_on ''Hydration'' 1 1 1, habit_on ''Hydration'' 2 0 1,
       habit_on ''Hydration'' 3 1 1, habit_on ''Hydration'' 4 1 1, habit_on ''Hydration'' 5 1 1]"
    by (simp add: hydration_days_def enumerate_eq_zip upt_rec eval_nat_numeral)
  have mem: "habit_on ''Hydration'' 5 1 1 \<in> set hydration_days"
    by (simp add: days)
  have nm: "name (habit_on ''Hydration'' 5 1 1) = ''Hydration''"
    by (simp add: habit_on_def)
  have seq: "map meets_target (habit_group hydration_days ''Hydration'')
       = [True, True, False, True, True, True]"
    by (simp add: days habit_group_def habit_on_def example_date_def meets_target_def)
  have ok: "\<forall>e \<in> set hydration_days. name e \<notin> set proto_keys"
    by (simp add: days habit_on_def proto_keys_def)
  from current_streak_trailing_run [of hydration_days] ok
  obtain r where r: "analyzeHabitPatterns hydration_days = Inr r" by blast
  from current_streak_trailing_run [of hydration_days] r mem
  obtain table streak where t: "current_streaks r = Has table"
    and look: "map_of table (name (habit_on ''Hydration'' 5 1 1)) = Some streak"
    and three: "map meets_target (habit_group hydration_days (name (habit_on ''Hydration'' 5 1 1)))
       = [True, True, False, True, True, True] \<longrightarrow> streak = 3"
    by blast
  from three seq have "streak = 3" unfolding nm by blast
  with look have "map_of table ''Hydration'' = Some 3" unfolding nm by simp
  with r t mem seq show ?thesis by blast
qed

subsection \<open>Trend slope and trend label\<close>




subsection \<open>Overall completion rate\<close>







subsection \<open>Recommendations\<close>

text \<open>
  C5. The claim asks for a scheduling suggestion whenever \<open>best_study_hour\<close> is set and the
  study completion rate is below 0.8. The code tests \<^verbatim>\<open>insights.study.best_study_hour\<close>
  for truthiness, and the hour 0 is falsy: for two sessions in the hour after midnight,
  one of them completed, the analyzer reports best hour 0 and completion rate 0.5, and
  no recommendation is generated.
\<close>

theorem midnight_best_hour_not_suggested:
  "best_study_hour (analyzeStudyPerformance midnight_sessions) = Has 0
   \<and> StudyInsights.completion_rate (analyzeStudyPerformance midnight_sessions) = Has (Num (1 / 2))
   \<and> generateRecommendations
        \<lparr>Insights.mood = Null, Insights.habits = Null,
         Insights.study = Has (analyzeStudyPerformance midnight_sessions)\<rparr> = []"
proof -
  have h: "hourly_data midnight_sessions
      = [(''0'', \<lparr>sessions = 2, bucket.completed = 1, totalDuration = 60\<rparr>)]"
    by (simp add: hourly_data_def midnight_sessions_def session_at_def example_date_def
        tally_step_def tally_def obj_set_def show_nat.simps digit_chars_def proto_keys_def)
  have k: "Object_entries [(''0'', data)] = [(''0'', data)]" for data :: bucket
    by (simp add: Object_entries_def Object_keys_def is_array_index_def dec_val_def
        digit_val_def digit_chars_def)
  have len: "length midnight_sessions = 2" by (simp add: midnight_sessions_def)
  have b: "best_study_hour (analyzeStudyPerformance midnight_sessions) = Has 0"
    by (simp add: analyzeStudyPerformance_def Let_def len h k js_div_def dec_val_def
        digit_val_def digit_chars_def)
  have c: "StudyInsights.completion_rate (analyzeStudyPerformance midnight_sessions)
      = Has (Num (1 / 2))"
    by (simp add: analyzeStudyPerformance_def Let_def midnight_sessions_def session_at_def
        round_scaled_def Math_round_def)
  show ?thesis
    by (simp add: b c generateRecommendations_def study_rules_def)
qed

subsection \<open>Average and volatility\<close>



subsection \<open>Flat export\<close>






subsection \<open>Reordering a mood series\<close>

text \<open>
  C8. Two mood series that are permutations of each other have the same \<open>average\<close>;
  \<open>trend_slope\<close> is not invariant: some series and some permutation of it have different
  slopes.
\<close>

theorem average_reorder_invariant_slope_not:
  "(\<forall>moodData moodData'. mset moodData = mset moodData' \<longrightarrow>
      (\<exists>r r'. calculateMoodInsights moodData = Inr r
         \<and> calculateMoodInsights moodData' = Inr r' \<and> average r = average r'))
   \<and> (\<exists>moodData moodData' r r'. mset moodData = mset moodData'
         \<and> calculateMoodInsights moodData = Inr r
         \<and> calculateMoodInsights moodData' = Inr r' \<and> trend_slope r \<noteq> trend_slope r')"
proof (intro conjI allI impI)
  fix moodData moodData' :: "MoodEntry list"
  assume p: "mset moodData = mset moodData'"
  then have len: "length moodData = length moodData'" by (rule mset_eq_length)
  then have e: "moodData = [] \<longleftrightarrow> moodData' = []" by auto
  have "sum_list (mood_levels moodData) = sum_list (mood_levels moodData')"
    unfolding mood_levels_def by (rule sum_list_map_mset [OF p])
  then have "arithmetic_mean (mood_levels moodData) = arithmetic_mean (mood_levels moodData')"
    by (simp add: arithmetic_mean_def length_mood_levels len)
  with e calculateMoodInsights_average [of moodData] calculateMoodInsights_average [of moodData']
  show "\<exists>r r'. calculateMoodInsights moodData = Inr r
         \<and> calculateMoodInsights moodData' = Inr r' \<and> average r = average r'"
    by auto
next
  let ?a = "mood_series [1, 2]"
  let ?b = "rev (mood_series [1, 2])"
  have la: "2 \<le> length ?a" and lb: "2 \<le> length ?b" by (simp_all add: mood_series_def)
  then have na: "?a \<noteq> []" and nb: "?b \<noteq> []" by auto
  have oa: "ols_slope (mood_levels ?a) = 1"
    by (simp add: mood_levels_series ols_slope_def upt_rec)
  have ob: "ols_slope (mood_levels ?b) = - 1"
    by (simp add: mood_levels_rev mood_levels_series ols_slope_def upt_rec)
  have rd: "round_scaled 10000 1 = 1" "round_scaled 10000 (- 1) = - 1"
    by (simp_all add: round_scaled_def Math_round_def)
  from calculateMoodInsights_nonempty [OF na] obtain r where
    r: "calculateMoodInsights ?a = Inr r"
    and sa: "trend_slope r = Has (round_scaled_num 10000 (calculateTrend (trend_points ?a)))"
    by force
  from calculateMoodInsights_nonempty [OF nb] obtain r' where
    r': "calculateMoodInsights ?b = Inr r'"
    and sb: "trend_slope r' = Has (round_scaled_num 10000 (calculateTrend (trend_points ?b)))"
    by force
  have "trend_slope r = Has (Num 1)"
    by (simp add: sa calculateTrend_ols [OF la] oa rd)
  moreover have "trend_slope r' = Has (Num (- 1))"
    by (simp add: sb calculateTrend_ols [OF lb] ob rd)
  ultimately have "trend_slope r \<noteq> trend_slope r'" by simp
  moreover have "mset ?a = mset ?b" by simp
  ultimately show "\<exists>moodData moodData' r r'. mset moodData = mset moodData'
         \<and> calculateMoodInsights moodData = Inr r
         \<and> calculateMoodInsights moodData' = Inr r' \<and> trend_slope r \<noteq> trend_slope r'"
    using r r' by blast
qed

theorem average_reorder_invariant_slope_not_witness:
  "mset (mood_series [1, 2]) = mset (rev (mood_series [1, 2]))
   \<and> (\<exists>r r'. calculateMoodInsights (mood_series [1, 2]) = Inr r
         \<and> calculateMoodInsights (rev (mood_series [1, 2])) = Inr r'
         \<and> average r = average r')"
proof -
  have p: "mset (mood_series [1, 2]) = mset (rev (mood_series [1, 2]))" by simp
  from average_reorder_invariant_slope_not p show ?thesis by blast
qed

subsection \<open>Structured export\<close>

lemma single_entry_insights:
  "calculateMoodInsights [mood_on 0 3] =
     Inr \<lparr>average = Has (Num 3), trend = Has ''stable'', trend_slope = Has NaN,
          volatility = Has (Num 0), best_weekday = Has ''Thursday'',
          worst_weekday = Has ''Thursday'', weekday_patterns = Has [(''Thursday'', 3)]\<rparr>"
proof -
  have g: "group_by [] [(''Thursday'', 3 :: int)] = Inr [(''Thursday'', [3])]"
    by (simp add: group_push_def obj_set_def proto_keys_def)
  have k: "Object_keys [(''Thursday'', v)] = [''Thursday'']" for v :: 'a
    by (simp add: Object_keys_def is_array_index_def digit_chars_def)
  have e: "Object_entries [(''Thursday'', v)] = [(''Thursday'', v)]" for v :: 'a
    by (simp add: Object_entries_def k)
  have t: "calculateTrend (trend_points [entry]) = NaN" for entry
    by (simp add: calculateTrend_def trend_points_def reduce_sum_def js_div_def Let_def)
  show ?thesis
    by (simp add: calculateMoodInsights_def Let_def mood_on_def example_date_def
        group_push_def obj_set_def proto_keys_def e k t
        weekday_averages_def mean_levels_def reduce_sum_def key_of_max_def key_of_min_def
        trend_label_def round_scaled_def Math_round_def)
qed

lemma single_day_assembled:
  "createWellnessReport fixed_clock 43200000 single_day ''test_user_1'' 0 = Inr single_day_report"
  by (simp add: createWellnessReport_def single_day_def single_entry_insights
      analyzeHabitPatterns_def analyzeStudyPerformance_def generateRecommendations_def
      mood_rules_def habit_rules_def study_rules_def single_day_report_def fixed_clock_def
      date_part_def Let_def)

lemma json_round_trip:
  "json_safe v \<Longrightarrow> \<exists>j. JSON_stringify v = Some j \<and> JSON_parse j = v"
proof (induction v)
  case (JNumber n)
  then show ?case by (cases n) simp_all
next
  case (JArray vs)
  then have "\<forall>v \<in> set vs. \<exists>j. JSON_stringify v = Some j \<and> JSON_parse j = v"
    by (auto simp: list_all_iff)
  then have "map JSON_parse (map (\<lambda>j. case j of None \<Rightarrow> Jnull | Some d \<Rightarrow> d)
                 (map JSON_stringify vs)) = vs"
    by (induction vs) auto
  then show ?case by simp
next
  case (JObject kvs)
  then have "\<forall>kv \<in> set kvs. \<exists>j. JSON_stringify (snd kv) = Some j \<and> JSON_parse j = snd kv"
    by (fastforce simp: list_all_iff)
  then have "map (map_prod id JSON_parse)
               (List.map_filter (\<lambda>(k, j). map_option (Pair k) j)
                  (map (map_prod id JSON_stringify) kvs)) = kvs"
    by (induction kvs) (auto simp: List.map_filter_simps)
  then show ?case by simp
qed simp_all

lemma decode_export_safe:
  "json_safe (report_value report) \<Longrightarrow> decode_export report = Some (report_value report)"
  using json_round_trip [of "report_value report"] by (auto simp: decode_export_def)

lemma exportReportJSON_content:
  assumes "exportReportJSON toISOString now writable fs report outputPath = Inr (path, fs')"
  shows "\<exists>doc. fs' path = Some (Document doc) \<and> JSON_stringify (report_value report) = Some doc"
  using assms
  by (auto simp: exportReportJSON_def writeFile_def Let_def split: option.splits if_splits)

lemma single_day_value_slope:
  "prop_of ''trend_slope'' (prop_of ''mood'' (prop_of ''insights'' (report_value single_day_report)))
     = JNumber NaN"
  by (simp add: report_value_def single_day_report_def insights_value_def mood_value_def)

lemma single_day_decoded:
  "\<exists>v. decode_export single_day_report = Some v
     \<and> prop_of ''trend_slope'' (prop_of ''mood'' (prop_of ''insights'' v)) = JNull"
  by (simp add: decode_export_def report_value_def single_day_report_def insights_value_def
      mood_value_def habits_value_def study_value_def obj_value_def nat_value_def
      Object_entries_def Object_keys_def is_array_index_def digit_chars_def)

text \<open>
  C9. The claim asks that decoding the structured export of an assembled report gives the
  report back. The report assembled from a single mood entry has \<open>trend_slope\<close>
  \<^verbatim>\<open>NaN\<close>, the quotient 0/0 of the regression on one point; \<^verbatim>\<open>JSON.stringify\<close> writes
  it as \<^verbatim>\<open>null\<close>, so that the decoded value differs from the report.
\<close>

theorem single_entry_report_not_round_trip:
  "createWellnessReport fixed_clock 43200000 single_day ''test_user_1'' 0 = Inr single_day_report
   \<and> prop_of ''trend_slope'' (prop_of ''mood'' (prop_of ''insights''
         (report_value single_day_report))) = JNumber NaN
   \<and> map_option (\<lambda>v. prop_of ''trend_slope'' (prop_of ''mood'' (prop_of ''insights'' v)))
         (decode_export single_day_report) = Some JNull
   \<and> decode_export single_day_report \<noteq> Some (report_value single_day_report)
   \<and> (\<exists>doc. exportReportJSON fixed_clock 43200000 (\<lambda>path. True) Map.empty single_day_report
                (Has ''report.json'')
              = Inr (''report.json'', [''report.json'' \<mapsto> Document doc])
            \<and> JSON_parse doc \<noteq> report_value single_day_report)"
proof -
  from single_day_decoded obtain v where
    v: "decode_export single_day_report = Some v"
    and s: "prop_of ''trend_slope'' (prop_of ''mood'' (prop_of ''insights'' v)) = JNull"
    by blast
  from s single_day_value_slope have ne: "v \<noteq> report_value single_day_report" by auto
  from v obtain doc where doc: "JSON_stringify (report_value single_day_report) = Some doc"
    and p: "JSON_parse doc = v"
    by (auto simp: decode_export_def)
  have ex: "exportReportJSON fixed_clock 43200000 (\<lambda>path. True) Map.empty single_day_report
                (Has ''report.json'')
              = Inr (''report.json'', [''report.json'' \<mapsto> Document doc])"
    by (simp add: exportReportJSON_def default_path_def writeFile_def doc Let_def)
  show ?thesis
    using single_day_assembled single_day_value_slope v s ne p ex by auto
qed

text \<open>
  The single entry is the only obstacle: every other assembled report is decoded to
  itself.
\<close>

lemma safe_slot_prop:
  "list_all (\<lambda>kv. json_safe (snd kv)) (slot_prop k f s)
     = (case s of Has v \<Rightarrow> json_safe (f v) | _ \<Rightarrow> True)"
  by (cases s) simp_all

lemma safe_nat_value: "json_safe (nat_value n)"
  by (simp add: nat_value_def)

lemma safe_obj_value: "(\<And>v. json_safe (f v)) \<Longrightarrow> json_safe (obj_value f ob)"
  by (simp add: obj_value_def list_all_iff split_beta)

lemma safe_bucket_values:
  "json_safe (hour_bucket_value data)" "json_safe (subject_bucket_value data)"
  by (simp_all add: hour_bucket_value_def subject_bucket_value_def safe_nat_value)

lemma safe_mood_value:
  assumes "calculateMoodInsights moodData = Inr m" and "length moodData \<noteq> 1"
  shows "json_safe (mood_value m)"
proof (cases "moodData = []")
  case True
  with assms(1) show ?thesis
    by (auto simp: calculateMoodInsights_def mood_value_def)
next
  case False
  with assms(2) have len: "2 \<le> length moodData"
    by (cases moodData) (auto simp: Suc_le_eq)
  from calculateMoodInsights_nonempty [OF False] assms(1) obtain a v b w avgs where
    "m = \<lparr>average = Has (Num a), trend = Has (trend_label (calculateTrend (trend_points moodData))),
          trend_slope = Has (round_scaled_num 10000 (calculateTrend (trend_points moodData))),
          volatility = Has (Num v), best_weekday = Has b, worst_weekday = Has w,
          weekday_patterns = Has avgs\<rparr>"
    by auto
  then show ?thesis
    by (simp add: mood_value_def calculateTrend_ols [OF len] safe_obj_value)
qed

lemma safe_habits_value:
  assumes "analyzeHabitPatterns habitData = Inr h"
  shows "json_safe (habits_value h)"
proof (cases "habitData = []")
  case True
  with assms show ?thesis
    by (auto simp: analyzeHabitPatterns_def habits_value_def safe_obj_value safe_nat_value)
next
  case False
  from analyzeHabitPatterns_groups [OF assms False] obtain hg where
    "group_by [] (map (\<lambda>entry. (name entry, entry)) habitData) = Inr hg" by blast
  from analyzeHabitPatterns_Inr [OF False this] assms obtain rate rates table mc na where
    "h = \<lparr>HabitInsights.completion_rate = Undefined, streaks = Undefined, patterns = Undefined,
          overall_completion_rate = Has (Num rate), individual_completion_rates = Has rates,
          current_streaks = Has table, most_consistent_habit = Has mc,
          needs_attention = Has na\<rparr>"
    by auto
  then show ?thesis
    by (simp add: habits_value_def safe_obj_value safe_nat_value)
qed

lemma safe_study_value: "json_safe (study_value (analyzeStudyPerformance studyData))"
  by (simp add: study_value_def analyzeStudyPerformance_def Let_def safe_slot_prop
      safe_obj_value safe_nat_value safe_bucket_values split: slot.splits)

lemma safe_report_value:
  assumes "createWellnessReport toISOString now data userId days_arg = Inr report"
    and "length (UserData.mood data) \<noteq> 1"
  shows "json_safe (report_value report)"
proof -
  from assms(1) obtain m h where
    m: "calculateMoodInsights (UserData.mood data) = Inr m"
    and h: "analyzeHabitPatterns (UserData.habits data) = Inr h"
    and ins: "insights report =
        \<lparr>Insights.mood = Has m, Insights.habits = Has h,
         Insights.study = Has (analyzeStudyPerformance (UserData.study data))\<rparr>"
    by (auto simp: createWellnessReport_def Let_def split: sum.splits)
  have "json_safe (insights_value (insights report))"
    by (simp add: ins insights_value_def safe_mood_value [OF m assms(2)]
        safe_habits_value [OF h] safe_study_value)
  then show ?thesis
    by (simp add: report_value_def safe_nat_value list_all_iff)
qed

lemma export_round_trip_unless_single_entry:
  assumes "createWellnessReport toISOString now data userId days_arg = Inr report"
    and "length (UserData.mood data) \<noteq> 1"
  shows "decode_export report = Some (report_value report)"
    and "exportReportJSON toISOString now' writable fs report outputPath = Inr (path, fs') \<Longrightarrow>
           \<exists>doc. fs' path = Some (Document doc) \<and> JSON_parse doc = report_value report"
proof -
  show d: "decode_export report = Some (report_value report)"
    by (rule decode_export_safe) (rule safe_report_value [OF assms])
  assume "exportReportJSON toISOString now' writable fs report outputPath = Inr (path, fs')"
  from exportReportJSON_content [OF this] d
  show "\<exists>doc. fs' path = Some (Document doc) \<and> JSON_parse doc = report_value report"
    by (auto simp: decode_export_def)
qed

subsection \<open>Best study hour\<close>

lemma show_nat_digits: "show_nat n \<noteq> [] \<and> hd (show_nat n) \<in> set digit_chars"
proof (induction n rule: show_nat.induct)
  case (1 n)
  show ?case
  proof (cases "n < 10")
    case True
    then have "digit_chars ! n \<in> set digit_chars"
      by (intro nth_mem) (simp add: digit_chars_def)
    with True show ?thesis by (simp add: show_nat.simps [of n])
  next
    case False
    with 1 show ?thesis by (simp add: show_nat.simps [of n])
  qed
qed

lemma show_nat_not_proto: "show_nat n \<notin> set proto_keys"
proof
  assume "show_nat n \<in> set proto_keys"
  then have "hd (show_nat n) \<notin> set digit_chars"
    by (auto simp: proto_keys_def digit_chars_def)
  with show_nat_digits [of n] show False by simp
qed

lemma set_obj_set: "set (obj_set ob k v) \<subseteq> insert (k, v) (set ob)"
  by (auto simp: obj_set_def split: if_splits)

lemma tally_step_none_completed:
  assumes "\<forall>p \<in> set ob. bucket.completed (snd p) = 0" and "\<not> StudySession.completed s"
  shows "\<forall>p \<in> set (tally_step ob k s). bucket.completed (snd p) = 0"
proof (cases "map_of ob k")
  case None
  with assms set_obj_set [of ob k "tally \<lparr>sessions = 0, bucket.completed = 0, totalDuration = 0\<rparr> s"]
  show ?thesis
    by (auto simp: tally_step_def tally_def)
next
  case (Some data)
  then have "(k, data) \<in> set ob" by (rule map_of_SomeD)
  with assms have "bucket.completed (tally data s) = 0" by (auto simp: tally_def)
  with assms Some set_obj_set [of ob k "tally data s"] show ?thesis
    by (auto simp: tally_step_def)
qed

lemma hourly_fold_none_completed:
  assumes "\<forall>p \<in> set ob. bucket.completed (snd p) = 0"
    and "\<forall>s \<in> set studyData. \<not> StudySession.completed s"
  shows "\<forall>p \<in> set (foldl (\<lambda>hourlyData session.
              tally_step hourlyData (show_nat (getHours (timestamp session))) session)
            ob studyData). bucket.completed (snd p) = 0"
  using assms
proof (induction studyData arbitrary: ob)
  case Nil
  then show ?case by simp
next
  case (Cons s studyData)
  from Cons.prems have "\<forall>p \<in> set (tally_step ob (show_nat (getHours (timestamp s))) s).
      bucket.completed (snd p) = 0"
    by (intro tally_step_none_completed) simp_all
  from Cons.IH [OF this] Cons.prems(2) show ?case by simp
qed

lemma tally_step_not_Nil: "ob \<noteq> [] \<or> k \<notin> set proto_keys \<Longrightarrow> tally_step ob k s \<noteq> []"
  by (cases "map_of ob k") (auto simp: tally_step_def obj_set_not_Nil)

lemma hourly_fold_not_Nil:
  "ob \<noteq> [] \<or> studyData \<noteq> [] \<Longrightarrow>
     foldl (\<lambda>hourlyData session.
              tally_step hourlyData (show_nat (getHours (timestamp session))) session)
       ob studyData \<noteq> []"
proof (induction studyData arbitrary: ob)
  case Nil
  then show ?case by simp
next
  case (Cons s studyData)
  have "tally_step ob (show_nat (getHours (timestamp s))) s \<noteq> []"
    by (rule tally_step_not_Nil) (simp add: show_nat_not_proto)
  with Cons.IH show ?case by simp
qed

lemma best_hour_loop_none_completed:
  assumes "\<forall>p \<in> set entries. bucket.completed (snd p) = 0"
  shows "best_hour_loop entries bestHour (Num 0) = bestHour"
  using assms
proof (induction entries)
  case Nil
  then show ?case by simp
next
  case (Cons p entries)
  obtain hour data where p: "p = (hour, data)" by (cases p)
  with Cons.prems have "bucket.completed data = 0" by simp
  then have "\<not> js_less (Num 0) (js_div (real (bucket.completed data)) (real (sessions data)))"
    by (simp add: js_div_def)
  with Cons p show ?case by simp
qed

lemma set_Object_entries: "set (Object_entries ob) \<subseteq> set ob"
proof
  fix p assume "p \<in> set (Object_entries ob)"
  then obtain k v where "p = (k, v)" "map_of ob k = Some v"
    by (auto simp: Object_entries_def map_filter_def)
  then show "p \<in> set ob" by (auto dest: map_of_SomeD)
qed

text \<open>
  C10. For every non-empty study series with no completed session the analyzer reports
  \<open>best_study_hour\<close> as \<^verbatim>\<open>null\<close> although it has built hour buckets: a
  \<open>best_study_hour\<close> that is not set does not mean that the series was empty.
\<close>

theorem no_completed_session_null_best_hour:
  assumes "studyData \<noteq> []" and "\<forall>s \<in> set studyData. \<not> StudySession.completed s"
  shows "best_study_hour (analyzeStudyPerformance studyData) = Null
    \<and> (\<exists>buckets. hourly_patterns (analyzeStudyPerformance studyData) = Has buckets
          \<and> buckets \<noteq> [])"
proof -
  have "\<forall>p \<in> set (hourly_data studyData). bucket.completed (snd p) = 0"
    unfolding hourly_data_def by (rule hourly_fold_none_completed) (simp_all add: assms)
  with set_Object_entries [of "hourly_data studyData"]
  have "\<forall>p \<in> set (Object_entries (hourly_data studyData)). bucket.completed (snd p) = 0"
    by blast
  then have "best_hour_loop (Object_entries (hourly_data studyData)) Null (Num 0) = Null"
    by (rule best_hour_loop_none_completed)
  moreover have "hourly_data studyData \<noteq> []"
    unfolding hourly_data_def by (rule hourly_fold_not_Nil) (simp add: assms)
  ultimately show ?thesis
    using assms(1) by (simp add: analyzeStudyPerformance_def Let_def)
qed

theorem no_completed_session_null_best_hour_witness:
  "[session_at 0 9 False] \<noteq> []
   \<and> \<not> StudySession.completed (session_at 0 9 False)
   \<and> best_study_hour (analyzeStudyPerformance [session_at 0 9 False]) = Null
   \<and> (\<exists>buckets. hourly_patterns (analyzeStudyPerformance [session_at 0 9 False]) = Has buckets
          \<and> buckets \<noteq> [])"
proof -
  have ne: "[session_at 0 9 False] \<noteq> []" by simp
  have nc: "\<forall>s \<in> set [session_at 0 9 False]. \<not> StudySession.completed s"
    by (simp add: session_at_def)
  from no_completed_session_null_best_hour [OF ne nc] nc show ?thesis
    by simp
qed

end
